theory Spec2Isabelle
  imports Complex_Main
begin

section \<open>Data model\<close>

text \<open>
  The store is MongoDB accessed through Mongoose. Document ids (ObjectIds, and the
  strings Stripe carries in its metadata) are modelled as strings; a collection is a map
  from ids to documents; \<open>Date.now()\<close> and \<open>new Date()\<close> are a clock reading passed
  to each handler. Stock and quantities are JavaScript numbers that hold integers (see
  the section on JavaScript numbers below); money is \<open>rat\<close>, the value of the number,
  and the handlers modelled here only copy and compare it. An id that Mongoose cannot
  cast to an ObjectId is outside the model.
\<close>

type_synonym ident = string
type_synonym time = int

text \<open>
  \<open>src/models/Product.js\<close>: the fields that carry a validator, and \<open>inStock\<close>.
  The fields without validators (images, unit, weight, brand, origin, featured,
  rating.count) play no part in any handler modelled here.
\<close>

record product =
  p_name :: string
  p_description :: string
  p_price :: rat
  p_category :: string
  p_stock :: int
  p_inStock :: bool
  p_rating_average :: rat

definition categories :: "string list" where
  "categories = [''grains'', ''spices'', ''vegetables'', ''meats'', ''snacks'',
     ''beverages'', ''oils'', ''flours'', ''specialities'', ''others'']"

text \<open>
  The validators of \<open>productSchema\<close>, which \<open>product.save()\<close> runs on every path of
  the document before it writes: \<open>required\<close> on name and description (an empty string
  fails it), \<open>min: 0\<close> on price and stock, \<open>enum\<close> on category, \<open>min: 0, max: 5\<close>
  on rating.average.
\<close>

definition productSchema :: "product \<Rightarrow> bool" where
  "productSchema p \<longleftrightarrow>
     p_name p \<noteq> [] \<and> p_description p \<noteq> [] \<and> 0 \<le> p_price p \<and>
     p_category p \<in> set categories \<and> 0 \<le> p_stock p \<and>
     0 \<le> p_rating_average p \<and> p_rating_average p \<le> 5"

text \<open>\<open>src/models/User.js\<close>: the fields the order and payment handlers read.\<close>

record user =
  u_id :: ident
  u_name :: string
  u_email :: string
  u_role :: string

text \<open>
  An order line as the request body carries it and as the order stores it. The product
  reference is optional: the checkout-session route creates lines without one.
\<close>

record order_item =
  item_product :: "ident option"
  item_name :: string
  item_quantity :: int
  item_price :: rat
  item_image :: string

record address =
  a_street :: string
  a_city :: string
  a_state :: string
  a_zipCode :: string
  a_country :: string

text \<open>
  \<open>paymentResult\<close>: the sub-document the payment paths write. Each writer sets some of
  its keys; a key it does not set, or sets to \<open>undefined\<close>, is \<open>None\<close>.
\<close>

record payment_result =
  pr_id :: "string option"
  pr_status :: "string option"
  pr_update_time :: "string option"
  pr_email_address :: "string option"
  pr_email :: "string option"

text \<open>
  The order document: the fields the handlers under \<open>src/\<close> read or write.
  \<open>models/Order.js\<close> itself is not among the sources, so its validators are a
  parameter \<open>orderSchema\<close> of every handler that creates or saves an order.
\<close>

record order =
  o_user :: ident
  o_orderItems :: "order_item list"
  o_shippingAddress :: address
  o_paymentMethod :: string
  o_itemsPrice :: rat
  o_shippingPrice :: rat
  o_taxPrice :: rat
  o_totalPrice :: rat
  o_status :: string
  o_isPaid :: bool
  o_paidAt :: "time option"
  o_paymentResult :: "payment_result option"
  o_isDelivered :: bool
  o_deliveredAt :: "time option"
  o_stripeSessionId :: "string option"

text \<open>
  The database, and the list of confirmation mails handed to the mail service
  (recipient, order id).
\<close>

record store =
  products :: "ident \<rightharpoonup> product"
  orders :: "ident \<rightharpoonup> order"
  users :: "ident \<rightharpoonup> user"
  outbox :: "(string \<times> ident) list"

text \<open>
  The error kinds of the JSON envelope. \<open>InsufficientStockError\<close> carries the product
  name and the stock left, which the source formats into its message.
\<close>

datatype error =
    ValidationError string
  | NotFoundError string
  | InsufficientStockError string int
  | ForbiddenError string
  | InternalError string

fun statusCode :: "error \<Rightarrow> nat" where
  "statusCode (ValidationError _) = 400"
| "statusCode (NotFoundError _) = 404"
| "statusCode (InsufficientStockError _ _) = 400"
| "statusCode (ForbiddenError _) = 403"
| "statusCode (InternalError _) = 500"

section \<open>Mongoose operations\<close>

text \<open>\<open>Model.findById(ref)\<close>: \<open>null\<close> for an undefined reference or an unknown id.\<close>

definition findById :: "(ident \<rightharpoonup> 'a) \<Rightarrow> ident option \<Rightarrow> 'a option" where
  "findById m r = (case r of None \<Rightarrow> None | Some k \<Rightarrow> m k)"

text \<open>
  \<open>product.save()\<close>: validation first; a document that fails it is not written and the
  call throws (\<open>None\<close>).
\<close>

definition product_save :: "ident \<Rightarrow> product \<Rightarrow> (ident \<rightharpoonup> product) \<Rightarrow> (ident \<rightharpoonup> product) option" where
  "product_save k p ps = (if productSchema p then Some (ps(k \<mapsto> p)) else None)"

text \<open>
  \<open>order.save()\<close> on a loaded order, validated by the schema parameter.
\<close>

definition order_save :: "(order \<Rightarrow> bool) \<Rightarrow> ident \<Rightarrow> order \<Rightarrow> store \<Rightarrow> store option" where
  "order_save orderSchema k o' s =
     (if orderSchema o' then Some (s\<lparr>orders := (orders s)(k \<mapsto> o')\<rparr>) else None)"

text \<open>
  \<open>Order.create(doc)\<close>: validates, then inserts under the id the driver generated
  (\<open>newId\<close>); an id already in use is a duplicate-key error.
\<close>

definition Order_create :: "(order \<Rightarrow> bool) \<Rightarrow> ident \<Rightarrow> order \<Rightarrow> store \<Rightarrow> store option" where
  "Order_create orderSchema newId doc s =
     (if orderSchema doc \<and> orders s newId = None
      then Some (s\<lparr>orders := (orders s)(newId \<mapsto> doc)\<rparr>) else None)"

text \<open>
  \<open>Order.findByIdAndUpdate(id, update)\<close>: applies the update to the stored document when
  there is one and returns it (\<open>{ new: true }\<close>); no validators run on this path.
\<close>

definition findByIdAndUpdate :: "ident \<Rightarrow> (order \<Rightarrow> order) \<Rightarrow> store \<Rightarrow> order option \<times> store" where
  "findByIdAndUpdate k upd s =
     (case orders s k of
        None \<Rightarrow> (None, s)
      | Some o' \<Rightarrow> (Some (upd o'), s\<lparr>orders := (orders s)(k \<mapsto> upd o')\<rparr>))"

section \<open>JavaScript numbers\<close>

text \<open>
  \<open>stock\<close> and \<open>quantity\<close> are IEEE-754 doubles that hold integers. Such a number is
  modelled by the integer it holds, \<open>Infinity\<close> and \<open>-Infinity\<close> by \<open>2 ^ 1024\<close> and
  \<open>- 2 ^ 1024\<close> (the first power of two beyond every finite double), so that \<open><\<close> and
  \<open>===\<close> on numbers are \<open><\<close> and \<open>=\<close> on integers. \<open>NaN\<close> is never stored: Mongoose
  refuses to cast it.
\<close>

definition jsInfinity :: int where
  "jsInfinity = 2 ^ 1024"

text \<open>The number of binary digits of a positive integer.\<close>

function bitlen :: "int \<Rightarrow> nat" where
  "bitlen n = (if n \<le> 0 then 0 else Suc (bitlen (n div 2)))"
  by pat_completeness auto
termination
  by (relation "measure nat") auto

declare bitlen.simps [simp del]

text \<open>
  Rounding an exact integer result to the nearest double, ties to the even significand.
  Up to \<open>2 ^ 53\<close> every integer is a double. Beyond, a double has 53 significant binary
  digits: with \<open>n\<close> digits in the magnitude the doubles are the multiples of
  \<open>2 ^ (n - 53)\<close>. A result that rounds to \<open>2 ^ 1024\<close> or more is \<open>Infinity\<close>.
\<close>

definition roundDouble :: "int \<Rightarrow> int" where
  "roundDouble x =
     (let m = \<bar>x\<bar> in
      if m \<le> 2 ^ 53 then x
      else if jsInfinity \<le> m then sgn x * jsInfinity
      else
        let u = 2 ^ (bitlen m - 53);
            q = m div u;
            r = m mod u;
            q' = (if u < 2 * r \<or> (2 * r = u \<and> odd q) then q + 1 else q)
        in sgn x * (q' * u))"

text \<open>
  \<open>a - b\<close> on two such numbers: \<open>None\<close> is \<open>NaN\<close>, the difference of two infinities
  of the same sign.
\<close>

definition jsSub :: "int \<Rightarrow> int \<Rightarrow> int option" where
  "jsSub a b =
     (if jsInfinity \<le> \<bar>a\<bar> then (if jsInfinity \<le> \<bar>b\<bar> \<and> sgn a = sgn b then None else Some (sgn a * jsInfinity))
      else if jsInfinity \<le> \<bar>b\<bar> then Some (- sgn b * jsInfinity)
      else Some (roundDouble (a - b)))"

section \<open>orderController.createOrder\<close>

record order_request =
  rq_orderItems :: "order_item list"
  rq_shippingAddress :: address
  rq_paymentMethod :: string
  rq_itemsPrice :: rat
  rq_shippingPrice :: rat
  rq_taxPrice :: rat
  rq_totalPrice :: rat

text \<open>The body of the first loop (lines 28-44): one line against the current stock.\<close>

definition checkLine :: "(ident \<rightharpoonup> product) \<Rightarrow> order_item \<Rightarrow> error option" where
  "checkLine ps it =
     (case findById ps (item_product it) of
        None \<Rightarrow> Some (NotFoundError (''Product '' @ item_name it @ '' not found''))
      | Some p \<Rightarrow>
          if p_stock p < item_quantity it
          then Some (InsufficientStockError (p_name p) (p_stock p))
          else None)"

fun checkStock :: "(ident \<rightharpoonup> product) \<Rightarrow> order_item list \<Rightarrow> error option" where
  "checkStock ps [] = None"
| "checkStock ps (it # its) =
     (case checkLine ps it of Some e \<Rightarrow> Some e | None \<Rightarrow> checkStock ps its)"

text \<open>
  The body of the second loop (lines 59-66): reload the product, subtract, clear
  \<open>inStock\<close> at zero, save. Reading \<open>stock\<close> of a product that is gone throws, as does a
  save the schema rejects; a \<open>NaN\<close> stock fails the cast and with it the save.
\<close>

definition decrementLine :: "order_item \<Rightarrow> (ident \<rightharpoonup> product) \<Rightarrow> (ident \<rightharpoonup> product) option" where
  "decrementLine it ps =
     (case item_product it of
        None \<Rightarrow> None
      | Some k \<Rightarrow>
          (case ps k of
             None \<Rightarrow> None
           | Some p \<Rightarrow>
               (case jsSub (p_stock p) (item_quantity it) of
                  None \<Rightarrow> None
                | Some v \<Rightarrow>
                    let p1 = p\<lparr>p_stock := v\<rparr>;
                        p2 = (if p_stock p1 = 0 then p1\<lparr>p_inStock := False\<rparr> else p1)
                    in product_save k p2 ps)))"

text \<open>
  The loop keeps the writes it made before a throw: the result is the catalog reached
  and whether the loop ran to its end.
\<close>

fun updateStock :: "order_item list \<Rightarrow> (ident \<rightharpoonup> product) \<Rightarrow> bool \<times> (ident \<rightharpoonup> product)" where
  "updateStock [] ps = (True, ps)"
| "updateStock (it # its) ps =
     (case decrementLine it ps of
        None \<Rightarrow> (False, ps)
      | Some ps' \<Rightarrow> updateStock its ps')"

text \<open>
  Modelled from the spec: \<open>models/Order.js\<close> is missing, and with it the defaults of a
  new order; the spec has an order created in status \<open>pending\<close> with \<open>isPaid=false\<close>,
  not delivered, with no payment result.
\<close>

definition newOrder :: "ident \<Rightarrow> order_request \<Rightarrow> order" where
  "newOrder uid rq =
     \<lparr> o_user = uid, o_orderItems = rq_orderItems rq,
       o_shippingAddress = rq_shippingAddress rq, o_paymentMethod = rq_paymentMethod rq,
       o_itemsPrice = rq_itemsPrice rq, o_shippingPrice = rq_shippingPrice rq,
       o_taxPrice = rq_taxPrice rq, o_totalPrice = rq_totalPrice rq,
       o_status = ''pending'', o_isPaid = False, o_paidAt = None,
       o_paymentResult = None, o_isDelivered = False, o_deliveredAt = None,
       o_stripeSessionId = None \<rparr>"

text \<open>
  The handler: the response (an error or the created order) and the store it leaves.
  An absent \<open>orderItems\<close> is the empty list. Every throw inside the \<open>try\<close> ends in the
  500 envelope, with whatever was written before it left in place.
\<close>

definition createOrder ::
  "(order \<Rightarrow> bool) \<Rightarrow> ident \<Rightarrow> user \<Rightarrow> order_request \<Rightarrow> store \<Rightarrow> (error + order) \<times> store" where
  "createOrder orderSchema newId usr rq s =
     (if rq_orderItems rq = [] then (Inl (ValidationError ''No order items provided''), s)
      else
        case checkStock (products s) (rq_orderItems rq) of
          Some e \<Rightarrow> (Inl e, s)
        | None \<Rightarrow>
            (case Order_create orderSchema newId (newOrder (u_id usr) rq) s of
               None \<Rightarrow> (Inl (InternalError ''Error creating order''), s)
             | Some s1 \<Rightarrow>
                 (case updateStock (rq_orderItems rq) (products s1) of
                    (False, ps) \<Rightarrow> (Inl (InternalError ''Error creating order''), s1\<lparr>products := ps\<rparr>)
                  | (True, ps) \<Rightarrow> (Inr (newOrder (u_id usr) rq), s1\<lparr>products := ps\<rparr>))))"

section \<open>orderController: reading and updating an order\<close>

text \<open>
  \<open>getOrderById\<close> (lines 108-140). \<open>populate('user', 'name email')\<close> replaces the
  owner reference by the owner's document, or by \<open>null\<close> when that user is gone, and
  then \<open>order.user._id\<close> throws. \<open>populate('orderItems.product', 'name price')\<close>
  resolves each line's product the same way. The populated owner's \<open>_id\<close> is the
  reference the order stored. The handler writes nothing.
\<close>

type_synonym order_view = "order \<times> (ident \<times> string \<times> string) \<times> (string \<times> rat) option list"

definition populateProducts :: "(ident \<rightharpoonup> product) \<Rightarrow> order_item list \<Rightarrow> (string \<times> rat) option list" where
  "populateProducts ps its =
     map (\<lambda>it. map_option (\<lambda>p. (p_name p, p_price p)) (findById ps (item_product it))) its"

definition getOrderById :: "user \<Rightarrow> ident \<Rightarrow> store \<Rightarrow> error + order_view" where
  "getOrderById usr k s =
     (case orders s k of
        None \<Rightarrow> Inl (NotFoundError ''Order not found'')
      | Some o' \<Rightarrow>
          (case users s (o_user o') of
             None \<Rightarrow> Inl (InternalError ''Error fetching order'')
           | Some owner \<Rightarrow>
               if o_user o' \<noteq> u_id usr \<and> u_role usr \<noteq> ''admin''
               then Inl (ForbiddenError ''Not authorized to view this order'')
               else Inr (o', (o_user o', u_name owner, u_email owner),
                         populateProducts (products s) (o_orderItems o'))))"

text \<open>
  \<open>updateOrderStatus\<close> (lines 193-227). The route runs it behind \<open>protect\<close> and
  \<open>admin\<close>; the handler itself looks at the order id and the body only.
\<close>

definition statusUpdate :: "time \<Rightarrow> string \<Rightarrow> order \<Rightarrow> order" where
  "statusUpdate now st o' =
     (let o1 = o'\<lparr>o_status := st\<rparr>
      in if st = ''delivered'' then o1\<lparr>o_isDelivered := True, o_deliveredAt := Some now\<rparr> else o1)"

definition updateOrderStatus ::
  "(order \<Rightarrow> bool) \<Rightarrow> time \<Rightarrow> ident \<Rightarrow> string \<Rightarrow> store \<Rightarrow> (error + order) \<times> store" where
  "updateOrderStatus orderSchema now k st s =
     (case orders s k of
        None \<Rightarrow> (Inl (NotFoundError ''Order not found''), s)
      | Some o' \<Rightarrow>
          (case order_save orderSchema k (statusUpdate now st o') s of
             None \<Rightarrow> (Inl (InternalError ''Error updating order status''), s)
           | Some s' \<Rightarrow> (Inr (statusUpdate now st o'), s')))"

text \<open>
  \<open>updateOrderToPaid\<close> (lines 232-267), behind \<open>protect\<close> only. The body's four keys
  are copied into \<open>paymentResult\<close>; a key the caller left out is \<open>undefined\<close>. The
  requesting user is an argument of the model so that the theorems can speak about it;
  the source never reads \<open>req.user\<close> here.
\<close>

record pay_body =
  b_id :: "string option"
  b_status :: "string option"
  b_update_time :: "string option"
  b_email_address :: "string option"

definition paidUpdate :: "time \<Rightarrow> pay_body \<Rightarrow> order \<Rightarrow> order" where
  "paidUpdate now b o' =
     o'\<lparr> o_isPaid := True, o_paidAt := Some now,
         o_paymentResult := Some \<lparr> pr_id = b_id b, pr_status = b_status b,
           pr_update_time = b_update_time b, pr_email_address = b_email_address b,
           pr_email = None \<rparr>,
         o_status := ''processing'' \<rparr>"

definition updateOrderToPaid ::
  "(order \<Rightarrow> bool) \<Rightarrow> time \<Rightarrow> user \<Rightarrow> ident \<Rightarrow> pay_body \<Rightarrow> store \<Rightarrow> (error + order) \<times> store" where
  "updateOrderToPaid orderSchema now usr k b s =
     (case orders s k of
        None \<Rightarrow> (Inl (NotFoundError ''Order not found''), s)
      | Some o' \<Rightarrow>
          (case order_save orderSchema k (paidUpdate now b o') s of
             None \<Rightarrow> (Inl (InternalError ''Error updating order''), s)
           | Some s' \<Rightarrow> (Inr (paidUpdate now b o'), s')))"

text \<open>The four fields the payment paths write, as one tuple.\<close>

definition paymentState :: "order \<Rightarrow> bool \<times> time option \<times> payment_result option \<times> string" where
  "paymentState o' = (o_isPaid o', o_paidAt o', o_paymentResult o', o_status o')"

section \<open>Payment routes\<close>

text \<open>
  The Stripe objects the routes read. A checkout session: its id, payment status,
  payment intent, the two metadata entries and \<open>customer_details?.email\<close>. Its amount,
  which the verify route only echoes in its envelope as a floating-point quotient, is
  left out. An event: its type and \<open>data.object\<close> (for a failed payment only the id of
  the object is read).
\<close>

record session =
  ss_id :: string
  ss_payment_status :: string
  ss_payment_intent :: "string option"
  ss_orderId :: "string option"
  ss_userId :: "string option"
  ss_email :: "string option"

record event =
  ev_type :: string
  ev_object :: session

text \<open>
  JavaScript truthiness of a value that is a string or \<open>undefined\<close>: \<open>undefined\<close> and
  the empty string are falsy.
\<close>

definition truthy :: "string option \<Rightarrow> string option" where
  "truthy v = (case v of None \<Rightarrow> None | Some x \<Rightarrow> if x = [] then None else Some x)"

text \<open>
  \<open>sendOrderConfirmationEmail\<close> (lines 416-526): renders the order and hands one mail
  to the mail service, which either takes it or throws (\<open>mailUp\<close>). The rendered text
  is not modelled; the mail is its recipient and the order id.
\<close>

definition sendOrderConfirmationEmail :: "bool \<Rightarrow> user \<Rightarrow> ident \<Rightarrow> store \<Rightarrow> store option" where
  "sendOrderConfirmationEmail mailUp usr k s =
     (if mailUp then Some (s\<lparr>outbox := outbox s @ [(u_email usr, k)]\<rparr>) else None)"

text \<open>The \<open>try { await send } catch { log }\<close> around each call.\<close>

definition trySend :: "bool \<Rightarrow> user \<Rightarrow> ident \<Rightarrow> store \<Rightarrow> store" where
  "trySend mailUp usr k s =
     (case sendOrderConfirmationEmail mailUp usr k s of None \<Rightarrow> s | Some s' \<Rightarrow> s')"


definition webhookUpdate_v1 :: "time \<Rightarrow> session \<Rightarrow> order \<Rightarrow> order" where
  "webhookUpdate_v1 now ss o' =
     o'\<lparr> o_isPaid := True, o_paidAt := Some now,
         o_paymentResult := Some \<lparr> pr_id = ss_payment_intent ss,
           pr_status = Some ''completed'', pr_update_time = None,
           pr_email_address = None, pr_email = ss_email ss \<rparr> \<rparr>"

definition verifyUpdate_v2 :: "time \<Rightarrow> session \<Rightarrow> order \<Rightarrow> order" where
  "verifyUpdate_v2 now ss o' =
     o'\<lparr> o_isPaid := True, o_paidAt := Some now, o_status := ''processing'',
         o_paymentResult := Some \<lparr> pr_id = ss_payment_intent ss,
           pr_status = Some (ss_payment_status ss), pr_update_time = None,
           pr_email_address = ss_email ss, pr_email = None \<rparr> \<rparr>"

definition webhookUpdate_v2 :: "time \<Rightarrow> session \<Rightarrow> order \<Rightarrow> order" where
  "webhookUpdate_v2 now ss o' =
     o'\<lparr> o_isPaid := True, o_paidAt := Some now, o_status := ''processing'',
         o_paymentResult := Some \<lparr> pr_id = ss_payment_intent ss,
           pr_status = Some ''completed'', pr_update_time = None,
           pr_email_address = ss_email ss, pr_email = None \<rparr> \<rparr>"

text \<open>
  \<open>POST /verify-session\<close>. \<open>retrieve\<close> is \<open>stripe.checkout.sessions.retrieve\<close>
  (\<open>None\<close> when it throws). Of the success envelope the model keeps the session id, its
  payment status and the customer's email.
\<close>

type_synonym verified = "string \<times> string \<times> string option"

definition verified :: "session \<Rightarrow> verified" where
  "verified ss = (ss_id ss, ss_payment_status ss, ss_email ss)"


text \<open>
  Second version (lines 340-413): also advances the status, and mails the user of the
  session's metadata when that user and the order exist and the mail key is configured
  (\<open>mailKey\<close> is \<open>process.env.RESEND_API_KEY\<close>).
\<close>

definition verifySession_v2 ::
  "(string \<Rightarrow> session option) \<Rightarrow> string option \<Rightarrow> bool \<Rightarrow> time \<Rightarrow> string option \<Rightarrow> store
     \<Rightarrow> (error + verified) \<times> store" where
  "verifySession_v2 retrieve mailKey mailUp now sessionId s =
     (case truthy sessionId of
        None \<Rightarrow> (Inl (ValidationError ''Session ID required''), s)
      | Some sid \<Rightarrow>
          (case retrieve sid of
             None \<Rightarrow> (Inl (InternalError ''Error verifying payment''), s)
           | Some ss \<Rightarrow>
               if ss_payment_status ss = ''paid''
               then
                 (let (ord, s1) =
                        (case truthy (ss_orderId ss) of
                           None \<Rightarrow> (None, s)
                         | Some k \<Rightarrow>
                             (case findByIdAndUpdate k (verifyUpdate_v2 now ss) s of
                                (None, s') \<Rightarrow> (None, s')
                              | (Some _, s') \<Rightarrow> (Some k, s')));
                      usr = findById (users s1) (ss_userId ss)
                  in (Inr (verified ss),
                      (case (usr, ord, truthy mailKey) of
                         (Some u, Some k, Some _) \<Rightarrow> trySend mailUp u k s1
                       | _ \<Rightarrow> s1)))
               else (Inl (ValidationError ''Payment not completed''), s)))"

text \<open>
  \<open>POST /webhook\<close>. The handler's first step is \<open>stripe.webhooks.constructEvent\<close>,
  whose outcome is the argument \<open>constructed\<close>: the verified event, or the message of
  the signature error.
\<close>

datatype webhook_response = Received | WebhookError string

text \<open>First version (lines 181-224).\<close>

definition webhook_v1 :: "time \<Rightarrow> string + event \<Rightarrow> store \<Rightarrow> webhook_response \<times> store" where
  "webhook_v1 now constructed s =
     (case constructed of
        Inl msg \<Rightarrow> (WebhookError (''Webhook Error: '' @ msg), s)
      | Inr ev \<Rightarrow>
          if ev_type ev = ''checkout.session.completed''
          then (case truthy (ss_orderId (ev_object ev)) of
                  None \<Rightarrow> (Received, s)
                | Some k \<Rightarrow>
                    (Received, snd (findByIdAndUpdate k (webhookUpdate_v1 now (ev_object ev)) s)))
          else if ev_type ev = ''payment_intent.payment_failed'' then (Received, s)
          else (Received, s))"

text \<open>Second version (lines 529-586).\<close>

definition webhook_v2 ::
  "string option \<Rightarrow> bool \<Rightarrow> time \<Rightarrow> string + event \<Rightarrow> store \<Rightarrow> webhook_response \<times> store" where
  "webhook_v2 mailKey mailUp now constructed s =
     (case constructed of
        Inl msg \<Rightarrow> (WebhookError (''Webhook Error: '' @ msg), s)
      | Inr ev \<Rightarrow>
          if ev_type ev = ''checkout.session.completed''
          then (case truthy (ss_orderId (ev_object ev)) of
                  None \<Rightarrow> (Received, s)
                | Some k \<Rightarrow>
                    (case findByIdAndUpdate k (webhookUpdate_v2 now (ev_object ev)) s of
                       (None, s1) \<Rightarrow> (Received, s1)
                     | (Some _, s1) \<Rightarrow>
                         (case truthy mailKey of
                            None \<Rightarrow> (Received, s1)
                          | Some _ \<Rightarrow>
                              (case findById (users s1) (ss_userId (ev_object ev)) of
                                 None \<Rightarrow> (Received, s1)
                               | Some u \<Rightarrow> (Received, trySend mailUp u k s1)))))
          else if ev_type ev = ''payment_intent.payment_failed'' then (Received, s)
          else (Received, s))"

section \<open>Properties named by the specification\<close>

text \<open>The total quantity an order asks of one product, over all its lines.\<close>

definition demand :: "ident \<Rightarrow> order_item list \<Rightarrow> int" where
  "demand k its = sum_list (map item_quantity (filter (\<lambda>it. item_product it = Some k) its))"

text \<open>The catalog invariant: no product has negative stock.\<close>

definition stockNonNegative :: "store \<Rightarrow> bool" where
  "stockNonNegative s \<longleftrightarrow> (\<forall>k p. products s k = Some p \<longrightarrow> 0 \<le> p_stock p)"

text \<open>The order invariant on its four totals.\<close>

definition totalsAddUp :: "order \<Rightarrow> bool" where
  "totalsAddUp o' \<longleftrightarrow> o_totalPrice o' = o_itemsPrice o' + o_shippingPrice o' + o_taxPrice o'"






text \<open>
  Modelled from the spec: \<open>models/Order.js\<close> is missing; this is the order schema as
  the spec's data model constrains an order: at least one line, each of quantity at least
  one and of non-negative price, the four totals non-negative and adding up, the status
  one of the five named. It stands for the schema parameter in the concrete runs below.
\<close>

definition specOrderSchema :: "order \<Rightarrow> bool" where
  "specOrderSchema o' \<longleftrightarrow>
     o_orderItems o' \<noteq> [] \<and>
     list_all (\<lambda>it. 1 \<le> item_quantity it \<and> 0 \<le> item_price it) (o_orderItems o') \<and>
     0 \<le> o_itemsPrice o' \<and> 0 \<le> o_shippingPrice o' \<and> 0 \<le> o_taxPrice o' \<and>
     0 \<le> o_totalPrice o' \<and> totalsAddUp o' \<and>
     o_status o' \<in> set [''pending'', ''processing'', ''shipped'', ''delivered'', ''cancelled'']"

section \<open>A concrete shop\<close>

definition rice :: product where
  "rice = \<lparr> p_name = ''Rice'', p_description = ''Long grain rice'', p_price = 10,
            p_category = ''grains'', p_stock = 5, p_inStock = True, p_rating_average = 0 \<rparr>"

definition alice :: user where
  "alice = \<lparr> u_id = ''u1'', u_name = ''Alice'', u_email = ''alice@example.com'', u_role = ''user'' \<rparr>"

definition bob :: user where
  "bob = \<lparr> u_id = ''u2'', u_name = ''Bob'', u_email = ''bob@example.com'', u_role = ''user'' \<rparr>"

definition home :: address where
  "home = \<lparr> a_street = ''1 Main St'', a_city = ''Austin'', a_state = ''TX'',
            a_zipCode = ''73301'', a_country = ''USA'' \<rparr>"

text \<open>A line of \<open>q\<close> units of product \<open>p1\<close> at unit price \<open>c\<close>.\<close>

definition line :: "int \<Rightarrow> rat \<Rightarrow> order_item" where
  "line q c = \<lparr> item_product = Some ''p1'', item_name = ''Rice'', item_quantity = q,
               item_price = c, item_image = [] \<rparr>"

text \<open>A request for the given lines whose totals are consistent with the lines' prices.\<close>

definition basket :: "order_item list \<Rightarrow> order_request" where
  "basket its =
     \<lparr> rq_orderItems = its, rq_shippingAddress = home, rq_paymentMethod = ''stripe'',
       rq_itemsPrice = sum_list (map (\<lambda>it. item_price it * of_int (item_quantity it)) its),
       rq_shippingPrice = 0, rq_taxPrice = 0,
       rq_totalPrice = sum_list (map (\<lambda>it. item_price it * of_int (item_quantity it)) its) \<rparr>"

definition shop :: store where
  "shop = \<lparr> products = [''p1'' \<mapsto> rice], orders = Map.empty,
            users = [''u1'' \<mapsto> alice, ''u2'' \<mapsto> bob], outbox = [] \<rparr>"

text \<open>The shop after Alice ordered one unit: order \<open>o1\<close>, unpaid.\<close>

definition shop1 :: store where
  "shop1 = snd (createOrder specOrderSchema ''o1'' alice (basket [line 1 10]) shop)"

definition receipt :: pay_body where
  "receipt = \<lparr> b_id = Some ''pi_1'', b_status = Some ''COMPLETED'',
               b_update_time = Some ''2024-01-01T00:00:00Z'',
               b_email_address = Some ''alice@example.com'' \<rparr>"

definition checkout1 :: session where
  "checkout1 = \<lparr> ss_id = ''cs_1'', ss_payment_status = ''paid'', ss_payment_intent = Some ''pi_1'',
                 ss_orderId = Some ''o1'', ss_userId = Some ''u1'',
                 ss_email = Some ''alice@example.com'' \<rparr>"

text \<open>Order \<open>o1\<close> confirmed by the verify route at time 1, then by the webhook at time 2.\<close>

definition verified1 :: store where
  "verified1 = snd (verifySession_v2 (\<lambda>_. Some checkout1) None True 1 (Some ''cs_1'') shop1)"

definition completed1 :: event where
  "completed1 = \<lparr> ev_type = ''checkout.session.completed'', ev_object = checkout1 \<rparr>"

definition notified1 :: "webhook_response \<times> store" where
  "notified1 = webhook_v2 None True 2 (Inr completed1) verified1"

definition failed1 :: event where
  "failed1 = \<lparr> ev_type = ''payment_intent.payment_failed'', ev_object = checkout1 \<rparr>"



section \<open>Theorems\<close>

subsection \<open>JavaScript numbers\<close>

text \<open>Between integers up to \<open>2 ^ 53\<close> whose difference is up to \<open>2 ^ 53\<close>, subtraction is exact.\<close>

lemma jsSub_exact:
  assumes "\<bar>a\<bar> \<le> 2 ^ 53" and "\<bar>b\<bar> \<le> 2 ^ 53" and "\<bar>a - b\<bar> \<le> 2 ^ 53"
  shows "jsSub a b = Some (a - b)"
proof -
  have "(2::int) ^ 53 < 2 ^ 1024" by (rule power_strict_increasing) simp_all
  with assms(1,2) have "\<not> jsInfinity \<le> \<bar>a\<bar>" "\<not> jsInfinity \<le> \<bar>b\<bar>"
    by (simp_all add: jsInfinity_def)
  with assms(3) show ?thesis by (simp add: jsSub_def roundDouble_def)
qed


subsection \<open>Concrete runs\<close>

lemmas shop_defs = rice_def alice_def bob_def home_def line_def basket_def shop_def

lemmas createOrder_defs = createOrder_def checkLine_def findById_def Order_create_def
  newOrder_def decrementLine_def product_save_def productSchema_def categories_def
  specOrderSchema_def totalsAddUp_def jsSub_exact

lemmas order_defs = newOrder_def shop_defs specOrderSchema_def totalsAddUp_def

lemma shop1_eq:
  "shop1 = shop\<lparr> orders := [''o1'' \<mapsto> newOrder ''u1'' (basket [line 1 10])],
                 products := [''p1'' \<mapsto> rice\<lparr>p_stock := 4\<rparr>] \<rparr>"
  by (simp add: shop1_def createOrder_defs shop_defs)

lemma shop1_order: "orders shop1 ''o1'' = Some (newOrder ''u1'' (basket [line 1 10]))"
  by (simp add: shop1_eq)

subsection \<open>Creating an order\<close>

lemma checkStock_Some: "checkStock ps its = Some e \<Longrightarrow> \<exists>it \<in> set its. checkLine ps it = Some e"
  by (induction its) (auto split: option.splits)

lemma checkStock_None: "checkStock ps its = None \<Longrightarrow> it \<in> set its \<Longrightarrow> checkLine ps it = None"
  by (induction its) (auto split: option.splits)

lemma checkLine_cases:
  "checkLine ps it = Some e \<Longrightarrow>
     (findById ps (item_product it) = None \<and> e = NotFoundError (''Product '' @ item_name it @ '' not found'')) \<or>
     (\<exists>p. findById ps (item_product it) = Some p \<and> p_stock p < item_quantity it \<and>
          e = InsufficientStockError (p_name p) (p_stock p))"
  by (auto simp: checkLine_def split: option.splits if_splits)

lemma checkLine_bad:
  "findById ps (item_product it) = None \<or>
     (\<exists>p. findById ps (item_product it) = Some p \<and> p_stock p < item_quantity it) \<Longrightarrow>
   checkLine ps it \<noteq> None"
  by (auto simp: checkLine_def split: option.splits)

text \<open>
  Claim C2. \<open>createOrder\<close> is all-or-nothing with respect to stock validation: when some
  line of the request refers to a missing product or asks for more than the product's
  current stock, the call fails with the error of such a line (\<open>NotFoundError\<close> for a
  missing product, \<open>InsufficientStockError\<close> with the product's name and its remaining
  stock otherwise) and returns the store it was given: no stock is decremented and no
  order is persisted.
\<close>

theorem createOrder_all_or_nothing:
  assumes "it \<in> set (rq_orderItems rq)"
    and "findById (products s) (item_product it) = None \<or>
         (\<exists>p. findById (products s) (item_product it) = Some p \<and> p_stock p < item_quantity it)"
  shows "\<exists>bad \<in> set (rq_orderItems rq).
           (findById (products s) (item_product bad) = None \<and>
            createOrder orderSchema newId usr rq s =
              (Inl (NotFoundError (''Product '' @ item_name bad @ '' not found'')), s)) \<or>
           (\<exists>p. findById (products s) (item_product bad) = Some p \<and>
                p_stock p < item_quantity bad \<and>
                createOrder orderSchema newId usr rq s =
                  (Inl (InsufficientStockError (p_name p) (p_stock p)), s))"
proof -
  from assms(1) have ne: "rq_orderItems rq \<noteq> []" by auto
  have line: "checkLine (products s) it \<noteq> None"
    by (rule checkLine_bad) (rule assms(2))
  have "checkStock (products s) (rq_orderItems rq) \<noteq> None"
  proof
    assume "checkStock (products s) (rq_orderItems rq) = None"
    from checkStock_None [OF this assms(1)] line show False by simp
  qed
  then obtain e where e: "checkStock (products s) (rq_orderItems rq) = Some e" by auto
  then obtain bad where bad: "bad \<in> set (rq_orderItems rq)" "checkLine (products s) bad = Some e"
    using checkStock_Some [of "products s" "rq_orderItems rq" e] by auto
  have run: "createOrder orderSchema newId usr rq s = (Inl e, s)"
    using ne e by (simp add: createOrder_def)
  from checkLine_cases [OF bad(2)] show ?thesis
  proof
    assume "findById (products s) (item_product bad) = None \<and>
      e = NotFoundError (''Product '' @ item_name bad @ '' not found'')"
    with run bad(1) show ?thesis by (intro bexI [of _ bad]) simp_all
  next
    assume "\<exists>p. findById (products s) (item_product bad) = Some p \<and>
      p_stock p < item_quantity bad \<and> e = InsufficientStockError (p_name p) (p_stock p)"
    with run bad(1) show ?thesis by (intro bexI [of _ bad]) auto
  qed
qed

lemma decrementLine_Some:
  "decrementLine it ps = Some ps' \<Longrightarrow>
   \<exists>k p v. item_product it = Some k \<and> ps k = Some p \<and>
     jsSub (p_stock p) (item_quantity it) = Some v \<and> 0 \<le> v \<and>
     ps' = ps(k \<mapsto> (if v = 0 then p\<lparr>p_stock := v, p_inStock := False\<rparr>
                      else p\<lparr>p_stock := v\<rparr>))"
  by (auto simp: decrementLine_def product_save_def productSchema_def Let_def
           split: option.splits if_splits)

lemma decrementLine_nonneg:
  assumes "decrementLine it ps = Some ps'" "\<forall>k p. ps k = Some p \<longrightarrow> 0 \<le> p_stock p"
  shows "\<forall>k p. ps' k = Some p \<longrightarrow> 0 \<le> p_stock p"
  using decrementLine_Some [OF assms(1)] assms(2) by (auto split: if_splits)

lemma updateStock_nonneg:
  "updateStock its ps = (b, ps') \<Longrightarrow> \<forall>k p. ps k = Some p \<longrightarrow> 0 \<le> p_stock p \<Longrightarrow>
   \<forall>k p. ps' k = Some p \<longrightarrow> 0 \<le> p_stock p"
proof (induction its arbitrary: ps)
  case Nil
  then show ?case by simp
next
  case (Cons it its)
  show ?case
  proof (cases "decrementLine it ps")
    case None
    with Cons.prems show ?thesis by simp
  next
    case (Some ps1)
    with Cons.prems have "updateStock its ps1 = (b, ps')" by simp
    from Cons.IH [OF this decrementLine_nonneg [OF Some Cons.prems(2)]] show ?thesis .
  qed
qed

lemma decrementLine_dom:
  "decrementLine it ps = Some ps' \<Longrightarrow> ps k = Some p \<Longrightarrow> \<exists>p'. ps' k = Some p'"
  by (drule decrementLine_Some) auto

lemma updateStock_dom:
  "updateStock its ps = (b, ps') \<Longrightarrow> ps k = Some p \<Longrightarrow> \<exists>p'. ps' k = Some p'"
proof (induction its arbitrary: ps p)
  case Nil
  then show ?case by simp
next
  case (Cons it its)
  show ?case
  proof (cases "decrementLine it ps")
    case None
    with Cons.prems show ?thesis by simp
  next
    case (Some ps1)
    with Cons.prems have run: "updateStock its ps1 = (b, ps')" by simp
    from decrementLine_dom [OF Some Cons.prems(2)] obtain p1 where "ps1 k = Some p1" by blast
    from Cons.IH [OF run this] show ?thesis .
  qed
qed

lemma decrementLine_other:
  "decrementLine it ps = Some ps' \<Longrightarrow> item_product it \<noteq> Some k \<Longrightarrow> ps' k = ps k"
  by (drule decrementLine_Some) auto

lemma updateStock_frame:
  "updateStock its ps = (True, ps') \<Longrightarrow> filter (\<lambda>it. item_product it = Some k) its = [] \<Longrightarrow>
   ps' k = ps k"
proof (induction its arbitrary: ps)
  case Nil
  then show ?case by simp
next
  case (Cons x xs)
  from Cons.prems(2) have x: "item_product x \<noteq> Some k"
    and xs: "filter (\<lambda>it. item_product it = Some k) xs = []"
    by (auto split: if_splits)
  from Cons.prems(1) obtain ps1 where ps1: "decrementLine x ps = Some ps1"
    "updateStock xs ps1 = (True, ps')"
    by (cases "decrementLine x ps") auto
  from Cons.IH [OF ps1(2) xs] decrementLine_other [OF ps1(1) x] show ?case by simp
qed

text \<open>
  One line within the exact range: from a stock between 0 and \<open>B \<le> 2 ^ 53\<close> and a
  quantity between 0 and \<open>B\<close>, the saved stock is the exact difference, and a consistent
  \<open>inStock\<close> flag stays consistent.
\<close>

lemma decrementLine_exact:
  assumes step: "decrementLine it ps = Some ps'" and p: "ps k = Some p"
    and k: "item_product it = Some k"
    and q: "0 \<le> item_quantity it" "item_quantity it \<le> B"
    and s: "0 \<le> p_stock p" "p_stock p \<le> B" and B: "B \<le> 2 ^ 53"
  shows "\<exists>p1. ps' k = Some p1 \<and> p_stock p1 = p_stock p - item_quantity it \<and>
           0 \<le> p_stock p1 \<and> p_stock p1 \<le> B \<and>
           ((p_inStock p \<longleftrightarrow> 0 < p_stock p) \<longrightarrow> (p_inStock p1 \<longleftrightarrow> 0 < p_stock p1))"
proof -
  from decrementLine_Some [OF step] k p obtain v where
    v: "jsSub (p_stock p) (item_quantity it) = Some v" "0 \<le> v"
    and ps': "ps' = ps(k \<mapsto> (if v = 0 then p\<lparr>p_stock := v, p_inStock := False\<rparr>
                            else p\<lparr>p_stock := v\<rparr>))"
    by auto
  from q s B have "\<bar>p_stock p\<bar> \<le> 2 ^ 53" "\<bar>item_quantity it\<bar> \<le> 2 ^ 53"
    "\<bar>p_stock p - item_quantity it\<bar> \<le> 2 ^ 53"
    by simp_all
  from jsSub_exact [OF this] v(1) have ex: "v = p_stock p - item_quantity it" by simp
  with v(2) q s have "v \<le> B" by simp
  with ps' ex v(2) q show ?thesis by auto
qed

lemma updateStock_exact:
  "updateStock its ps = (True, ps') \<Longrightarrow> ps k = Some p \<Longrightarrow>
   list_all (\<lambda>it. item_product it = Some k \<longrightarrow> 0 \<le> item_quantity it \<and> item_quantity it \<le> B) its \<Longrightarrow>
   0 \<le> p_stock p \<Longrightarrow> p_stock p \<le> B \<Longrightarrow> B \<le> 2 ^ 53 \<Longrightarrow>
   \<exists>p'. ps' k = Some p' \<and> p_stock p' = p_stock p - demand k its \<and> 0 \<le> p_stock p' \<and>
        ((p_inStock p \<longleftrightarrow> 0 < p_stock p) \<longrightarrow> (p_inStock p' \<longleftrightarrow> 0 < p_stock p'))"
proof (induction its arbitrary: ps p)
  case Nil
  then show ?case by (simp add: demand_def)
next
  case (Cons x xs)
  from Cons.prems(1) obtain ps1 where ps1: "decrementLine x ps = Some ps1"
    "updateStock xs ps1 = (True, ps')"
    by (cases "decrementLine x ps") auto
  from Cons.prems(3) have xs:
    "list_all (\<lambda>it. item_product it = Some k \<longrightarrow> 0 \<le> item_quantity it \<and> item_quantity it \<le> B) xs"
    by simp
  show ?case
  proof (cases "item_product x = Some k")
    case True
    with Cons.prems(3) have q: "0 \<le> item_quantity x" "item_quantity x \<le> B" by simp_all
    from decrementLine_exact [OF ps1(1) Cons.prems(2) True q Cons.prems(4,5,6)]
    obtain p1 where p1: "ps1 k = Some p1" "p_stock p1 = p_stock p - item_quantity x"
      "0 \<le> p_stock p1" "p_stock p1 \<le> B"
      "(p_inStock p \<longleftrightarrow> 0 < p_stock p) \<longrightarrow> (p_inStock p1 \<longleftrightarrow> 0 < p_stock p1)"
      by blast
    from Cons.IH [OF ps1(2) p1(1) xs p1(3,4) Cons.prems(6)]
    obtain p' where p': "ps' k = Some p'" "p_stock p' = p_stock p1 - demand k xs"
      "0 \<le> p_stock p'"
      "(p_inStock p1 \<longleftrightarrow> 0 < p_stock p1) \<longrightarrow> (p_inStock p' \<longleftrightarrow> 0 < p_stock p')"
      by blast
    from True have "demand k (x # xs) = item_quantity x + demand k xs"
      by (simp add: demand_def)
    with p1 p' show ?thesis by auto
  next
    case False
    from decrementLine_other [OF ps1(1) False] Cons.prems(2) have "ps1 k = Some p" by simp
    from Cons.IH [OF ps1(2) this xs Cons.prems(4,5,6)]
    obtain p' where p': "ps' k = Some p'" "p_stock p' = p_stock p - demand k xs"
      "0 \<le> p_stock p'"
      "(p_inStock p \<longleftrightarrow> 0 < p_stock p) \<longrightarrow> (p_inStock p' \<longleftrightarrow> 0 < p_stock p')"
      by blast
    from False have "demand k (x # xs) = demand k xs" by (simp add: demand_def)
    with p' show ?thesis by auto
  qed
qed

text \<open>What the first loop has established about the lines of one product.\<close>

lemma checkStock_bounds:
  "checkStock ps its = None \<Longrightarrow> ps k = Some p \<Longrightarrow>
   list_all (\<lambda>it. item_product it = Some k \<longrightarrow> item_quantity it \<le> p_stock p) its"
proof (induction its)
  case Nil
  then show ?case by simp
next
  case (Cons x xs)
  from Cons.prems(1) have x: "checkLine ps x = None" and xs: "checkStock ps xs = None"
    by (auto split: option.splits)
  from x Cons.prems(2) have "item_product x = Some k \<longrightarrow> item_quantity x \<le> p_stock p"
    by (auto simp: checkLine_def findById_def split: option.splits if_splits)
  with Cons.IH [OF xs Cons.prems(2)] show ?case by simp
qed


lemma list_all_conj:
  "list_all P xs \<Longrightarrow> list_all Q xs \<Longrightarrow> list_all (\<lambda>x. P x \<and> Q x) xs"
  by (induction xs) auto

lemma list_all_mono': "list_all P xs \<Longrightarrow> (\<And>x. P x \<Longrightarrow> Q x) \<Longrightarrow> list_all Q xs"
  by (induction xs) auto

lemma createOrder_success:
  assumes "createOrder orderSchema newId usr rq s = (Inr ord, s')"
  shows "updateStock (rq_orderItems rq) (products s) = (True, products s')"
    and "ord = newOrder (u_id usr) rq"
    and "orders s' = (orders s)(newId \<mapsto> ord)"
    and "checkStock (products s) (rq_orderItems rq) = None"
    and "orderSchema ord"
proof -
  from assms have ne: "rq_orderItems rq \<noteq> []"
    by (auto simp: createOrder_def split: if_splits)
  from assms ne show chk: "checkStock (products s) (rq_orderItems rq) = None"
    by (cases "checkStock (products s) (rq_orderItems rq)") (simp_all add: createOrder_def)
  from assms ne chk obtain s1 where
    s1: "Order_create orderSchema newId (newOrder (u_id usr) rq) s = Some s1"
    by (cases "Order_create orderSchema newId (newOrder (u_id usr) rq) s")
       (simp_all add: createOrder_def)
  then have s1': "s1 = s\<lparr>orders := (orders s)(newId \<mapsto> newOrder (u_id usr) rq)\<rparr>"
    by (simp add: Order_create_def split: if_splits)
  obtain b ps where up: "updateStock (rq_orderItems rq) (products s1) = (b, ps)"
    by (cases "updateStock (rq_orderItems rq) (products s1)")
  from assms ne chk s1 up have res: "b" "ord = newOrder (u_id usr) rq" "s' = s1\<lparr>products := ps\<rparr>"
    by (cases b; simp add: createOrder_def)+
  from res(2) show "ord = newOrder (u_id usr) rq" .
  from s1 res(2) show "orderSchema ord"
    by (simp add: Order_create_def split: if_splits)
  from res(3) s1' res(2) show "orders s' = (orders s)(newId \<mapsto> ord)" by simp
  from up res s1' show "updateStock (rq_orderItems rq) (products s) = (True, products s')" by simp
qed

lemma createOrder_products:
  "products (snd (createOrder orderSchema newId usr rq s)) = products s \<and>
     isl (fst (createOrder orderSchema newId usr rq s)) \<or>
   (\<exists>b. updateStock (rq_orderItems rq) (products s) =
          (b, products (snd (createOrder orderSchema newId usr rq s))))"
proof (cases "rq_orderItems rq = []")
  case True
  then show ?thesis by (simp add: createOrder_def)
next
  case ne: False
  show ?thesis
  proof (cases "checkStock (products s) (rq_orderItems rq)")
    case (Some e)
    with ne show ?thesis by (simp add: createOrder_def)
  next
    case chk: None
    show ?thesis
    proof (cases "Order_create orderSchema newId (newOrder (u_id usr) rq) s")
      case None
      with ne chk show ?thesis by (simp add: createOrder_def)
    next
      case (Some s1)
      then have s1': "products s1 = products s"
        by (auto simp: Order_create_def split: if_splits)
      obtain b ps where up: "updateStock (rq_orderItems rq) (products s1) = (b, ps)"
        by (cases "updateStock (rq_orderItems rq) (products s1)")
      with ne chk Some have "products (snd (createOrder orderSchema newId usr rq s)) = ps"
        by (cases b) (simp_all add: createOrder_def)
      with up s1' show ?thesis by auto
    qed
  qed
qed

text \<open>
  Claim C3. Non-negative stock is an invariant of \<open>createOrder\<close>: from a catalog without
  negative stock, every call, whatever its lines (the same product may appear in several)
  and whatever its outcome, leaves a catalog without negative stock, so the total taken
  from a product never exceeds its starting stock. The second pass saves each product
  through the schema, whose \<open>min: 0\<close> on \<open>stock\<close> rejects the write that would go
  below zero. After a successful call whose quantities are not negative, on a product
  stocked up to \<open>2 ^ 53\<close>, the total taken is the sum of the quantities of the lines that
  refer to the product.
\<close>

theorem createOrder_stock_nonneg:
  assumes inv: "stockNonNegative s"
  shows "stockNonNegative (snd (createOrder orderSchema newId usr rq s)) \<and>
    (\<forall>k p. products s k = Some p \<longrightarrow>
       (\<exists>p'. products (snd (createOrder orderSchema newId usr rq s)) k = Some p' \<and>
             p_stock p - p_stock p' \<le> p_stock p \<and>
             (\<not> isl (fst (createOrder orderSchema newId usr rq s)) \<longrightarrow>
              p_stock p \<le> 2 ^ 53 \<longrightarrow>
              list_all (\<lambda>it. 0 \<le> item_quantity it) (rq_orderItems rq) \<longrightarrow>
                p_stock p - p_stock p' = demand k (rq_orderItems rq))))"
proof -
  let ?r = "fst (createOrder orderSchema newId usr rq s)"
  let ?s' = "snd (createOrder orderSchema newId usr rq s)"
  from inv have inv0: "\<forall>k p. products s k = Some p \<longrightarrow> 0 \<le> p_stock p"
    by (simp add: stockNonNegative_def)
  have inv': "\<forall>k p. products ?s' k = Some p \<longrightarrow> 0 \<le> p_stock p"
    using createOrder_products [of orderSchema newId usr rq s] inv0 updateStock_nonneg
    by metis
  have dom: "\<exists>p'. products ?s' k = Some p'" if "products s k = Some p" for k p
    using createOrder_products [of orderSchema newId usr rq s] that updateStock_dom
    by metis
  have dem: "\<exists>p'. products ?s' k = Some p' \<and> p_stock p' = p_stock p - demand k (rq_orderItems rq)"
    if p: "products s k = Some p" and ok: "\<not> isl ?r" and safe: "p_stock p \<le> 2 ^ 53"
      and qs: "list_all (\<lambda>it. 0 \<le> item_quantity it) (rq_orderItems rq)" for k p
  proof -
    from ok obtain ord where "?r = Inr ord" by (cases ?r) auto
    then have run: "createOrder orderSchema newId usr rq s = (Inr ord, ?s')"
      by (metis prod.collapse)
    from checkStock_bounds [OF createOrder_success(4) [OF run] p]
    have "list_all (\<lambda>it. item_product it = Some k \<longrightarrow> item_quantity it \<le> p_stock p) (rq_orderItems rq)" .
    from list_all_conj [OF qs this]
    have "list_all (\<lambda>it. item_product it = Some k \<longrightarrow>
             0 \<le> item_quantity it \<and> item_quantity it \<le> p_stock p) (rq_orderItems rq)"
      by (rule list_all_mono') simp
    from updateStock_exact [OF createOrder_success(1) [OF run] p this _ _ safe] inv0 p
    show ?thesis by auto
  qed
  have "\<exists>p'. products ?s' k = Some p' \<and> p_stock p - p_stock p' \<le> p_stock p \<and>
          (\<not> isl ?r \<longrightarrow> p_stock p \<le> 2 ^ 53 \<longrightarrow>
           list_all (\<lambda>it. 0 \<le> item_quantity it) (rq_orderItems rq) \<longrightarrow>
           p_stock p - p_stock p' = demand k (rq_orderItems rq))"
    if "products s k = Some p" for k p
  proof -
    from dom [OF that] obtain p' where p': "products ?s' k = Some p'" by blast
    with inv' have "0 \<le> p_stock p'" by blast
    moreover have "p_stock p - p_stock p' = demand k (rq_orderItems rq)"
      if "\<not> isl ?r" "p_stock p \<le> 2 ^ 53"
        "list_all (\<lambda>it. 0 \<le> item_quantity it) (rq_orderItems rq)"
      using dem [OF \<open>products s k = Some p\<close> that] p' by auto
    ultimately show ?thesis using p' by auto
  qed
  with inv' show ?thesis by (simp add: stockNonNegative_def)
qed


theorem createOrder_all_or_nothing_witness:
  "line 9 10 \<in> set (rq_orderItems (basket [line 2 10, line 9 10])) \<and>
   (\<exists>p. findById (products shop) (item_product (line 9 10)) = Some p \<and>
        p_stock p < item_quantity (line 9 10)) \<and>
   (\<exists>bad \<in> set (rq_orderItems (basket [line 2 10, line 9 10])).
      (findById (products shop) (item_product bad) = None \<and>
       createOrder specOrderSchema ''o1'' alice (basket [line 2 10, line 9 10]) shop =
         (Inl (NotFoundError (''Product '' @ item_name bad @ '' not found'')), shop)) \<or>
      (\<exists>p. findById (products shop) (item_product bad) = Some p \<and>
           p_stock p < item_quantity bad \<and>
           createOrder specOrderSchema ''o1'' alice (basket [line 2 10, line 9 10]) shop =
             (Inl (InsufficientStockError (p_name p) (p_stock p)), shop))) \<and>
   createOrder specOrderSchema ''o1'' alice (basket [line 2 10, line 9 10]) shop =
     (Inl (InsufficientStockError ''Rice'' 5), shop)"
proof -
  have h1: "line 9 10 \<in> set (rq_orderItems (basket [line 2 10, line 9 10]))"
    by (simp add: basket_def)
  have h2: "\<exists>p. findById (products shop) (item_product (line 9 10)) = Some p \<and>
        p_stock p < item_quantity (line 9 10)"
    by (simp add: findById_def shop_defs)
  have run: "createOrder specOrderSchema ''o1'' alice (basket [line 2 10, line 9 10]) shop =
     (Inl (InsufficientStockError ''Rice'' 5), shop)"
    by (simp add: createOrder_defs shop_defs)
  from createOrder_all_or_nothing [OF h1 disjI2 [OF h2], of specOrderSchema "''o1''" alice]
    h1 h2 run show ?thesis by (intro conjI)
qed

theorem createOrder_stock_nonneg_witness:
  "stockNonNegative shop \<and> products shop ''p1'' = Some rice \<and>
   \<not> isl (fst (createOrder specOrderSchema ''o1'' alice (basket [line 2 10, line 3 10]) shop)) \<and>
   p_stock rice \<le> 2 ^ 53 \<and>
   list_all (\<lambda>it. 0 \<le> item_quantity it) (rq_orderItems (basket [line 2 10, line 3 10])) \<and>
   stockNonNegative (snd (createOrder specOrderSchema ''o1'' alice (basket [line 2 10, line 3 10]) shop)) \<and>
   (\<exists>p'. products (snd (createOrder specOrderSchema ''o1'' alice (basket [line 2 10, line 3 10]) shop)) ''p1''
            = Some p' \<and>
         p_stock rice - p_stock p' \<le> p_stock rice \<and>
         p_stock rice - p_stock p' = demand ''p1'' (rq_orderItems (basket [line 2 10, line 3 10]))) \<and>
   demand ''p1'' (rq_orderItems (basket [line 2 10, line 3 10])) = 5"
proof -
  let ?run = "createOrder specOrderSchema ''o1'' alice (basket [line 2 10, line 3 10]) shop"
  have h: "stockNonNegative shop"
    by (simp add: stockNonNegative_def shop_defs)
  have p: "products shop ''p1'' = Some rice" by (simp add: shop_def)
  have ok: "\<not> isl (fst ?run)"
    by (simp add: createOrder_defs shop_defs)
  have safe: "p_stock rice \<le> 2 ^ 53" by (simp add: rice_def)
  have qs: "list_all (\<lambda>it. 0 \<le> item_quantity it) (rq_orderItems (basket [line 2 10, line 3 10]))"
    by (simp add: shop_defs)
  have d: "demand ''p1'' (rq_orderItems (basket [line 2 10, line 3 10])) = 5"
    by (simp add: demand_def shop_defs)
  from createOrder_stock_nonneg [OF h, of specOrderSchema "''o1''" alice "basket [line 2 10, line 3 10]"]
  have inv: "stockNonNegative (snd ?run)"
    and all: "\<forall>k p. products shop k = Some p \<longrightarrow>
       (\<exists>p'. products (snd ?run) k = Some p' \<and> p_stock p - p_stock p' \<le> p_stock p \<and>
             (\<not> isl (fst ?run) \<longrightarrow> p_stock p \<le> 2 ^ 53 \<longrightarrow>
              list_all (\<lambda>it. 0 \<le> item_quantity it) (rq_orderItems (basket [line 2 10, line 3 10])) \<longrightarrow>
              p_stock p - p_stock p' = demand k (rq_orderItems (basket [line 2 10, line 3 10]))))"
    by blast+
  from all p ok safe qs have "\<exists>p'. products (snd ?run) ''p1'' = Some p' \<and>
         p_stock rice - p_stock p' \<le> p_stock rice \<and>
         p_stock rice - p_stock p' = demand ''p1'' (rq_orderItems (basket [line 2 10, line 3 10]))"
    by blast
  with h p ok safe qs inv d show ?thesis by (intro conjI)
qed



subsection \<open>Reading an order\<close>

text \<open>
  Claim C6, as the code has it. A requesting user who is neither the owner nor an
  administrator gets \<open>ForbiddenError\<close> for an order that exists and whose owner's
  account resolves; for an order that does not exist every user gets \<open>NotFoundError\<close>,
  because the handler looks the order up before it compares users.
\<close>

theorem getOrderById_forbidden:
  "(orders s k = None \<longrightarrow> getOrderById usr k s = Inl (NotFoundError ''Order not found'')) \<and>
   (\<forall>o' owner. orders s k = Some o' \<longrightarrow> users s (o_user o') = Some owner \<longrightarrow>
      o_user o' \<noteq> u_id usr \<longrightarrow> u_role usr \<noteq> ''admin'' \<longrightarrow>
      getOrderById usr k s = Inl (ForbiddenError ''Not authorized to view this order''))"
  by (simp add: getOrderById_def)

theorem getOrderById_forbidden_witness:
  "orders shop ''o9'' = None \<and>
   getOrderById bob ''o9'' shop = Inl (NotFoundError ''Order not found'') \<and>
   orders shop1 ''o1'' = Some (newOrder ''u1'' (basket [line 1 10])) \<and>
   users shop1 (o_user (newOrder ''u1'' (basket [line 1 10]))) = Some alice \<and>
   o_user (newOrder ''u1'' (basket [line 1 10])) \<noteq> u_id bob \<and>
   u_role bob \<noteq> ''admin'' \<and>
   getOrderById bob ''o1'' shop1 = Inl (ForbiddenError ''Not authorized to view this order'')"
proof -
  have a: "orders shop ''o9'' = None" by (simp add: shop_def)
  have b: "orders shop1 ''o1'' = Some (newOrder ''u1'' (basket [line 1 10]))"
    by (rule shop1_order)
  have c: "users shop1 (o_user (newOrder ''u1'' (basket [line 1 10]))) = Some alice"
    by (simp add: shop1_eq newOrder_def shop_def)
  have d: "o_user (newOrder ''u1'' (basket [line 1 10])) \<noteq> u_id bob"
    by (simp add: newOrder_def bob_def)
  have e: "u_role bob \<noteq> ''admin''" by (simp add: bob_def)
  from getOrderById_forbidden [of shop "''o9''" bob] a
  have f: "getOrderById bob ''o9'' shop = Inl (NotFoundError ''Order not found'')" by blast
  from getOrderById_forbidden [of shop1 "''o1''" bob] b c d e
  have g: "getOrderById bob ''o1'' shop1 = Inl (ForbiddenError ''Not authorized to view this order'')"
    by blast
  from a f b c d e g show ?thesis by (intro conjI)
qed

text \<open>
  Claim C6 as stated fails where the order does not exist: Bob, who is not an
  administrator, asks for an order id the store does not hold and gets
  \<open>NotFoundError\<close> (404), not \<open>ForbiddenError\<close>.
\<close>

theorem getOrderById_absent_counterexample:
  "u_role bob \<noteq> ''admin'' \<and> orders shop ''o9'' = None \<and>
   getOrderById bob ''o9'' shop = Inl (NotFoundError ''Order not found'') \<and>
   getOrderById bob ''o9'' shop \<noteq> Inl (ForbiddenError ''Not authorized to view this order'')"
  by (simp add: getOrderById_def shop_def bob_def)

subsection \<open>Updating the status\<close>

text \<open>
  Claim C9. \<open>updateOrderStatus\<close> fails with \<open>NotFoundError\<close> when the order is absent.
  For an existing order it writes the status it is given, whatever the order's current
  status, and exactly when the new status is \<open>delivered\<close> it also sets \<open>isDelivered\<close>
  and \<open>deliveredAt\<close> to the current time; nothing else of the order changes. The write
  goes through \<open>order.save()\<close>, hence through the order schema.
\<close>

theorem updateOrderStatus_unconditional:
  "(orders s k = None \<longrightarrow>
      updateOrderStatus orderSchema now k st s = (Inl (NotFoundError ''Order not found''), s)) \<and>
   (\<forall>o'. orders s k = Some o' \<longrightarrow> orderSchema (statusUpdate now st o') \<longrightarrow>
      updateOrderStatus orderSchema now k st s =
        (Inr (statusUpdate now st o'), s\<lparr>orders := (orders s)(k \<mapsto> statusUpdate now st o')\<rparr>) \<and>
      o_status (statusUpdate now st o') = st \<and>
      (st = ''delivered'' \<longrightarrow>
         statusUpdate now st o' = o'\<lparr>o_status := st, o_isDelivered := True, o_deliveredAt := Some now\<rparr>) \<and>
      (st \<noteq> ''delivered'' \<longrightarrow> statusUpdate now st o' = o'\<lparr>o_status := st\<rparr>))"
  by (simp add: updateOrderStatus_def order_save_def statusUpdate_def Let_def)

theorem updateOrderStatus_unconditional_witness:
  "orders shop ''o9'' = None \<and>
   updateOrderStatus specOrderSchema 7 ''o9'' ''shipped'' shop =
     (Inl (NotFoundError ''Order not found''), shop) \<and>
   orders shop1 ''o1'' = Some (newOrder ''u1'' (basket [line 1 10])) \<and>
   specOrderSchema (statusUpdate 7 ''delivered'' (newOrder ''u1'' (basket [line 1 10]))) \<and>
   updateOrderStatus specOrderSchema 7 ''o1'' ''delivered'' shop1 =
     (Inr (statusUpdate 7 ''delivered'' (newOrder ''u1'' (basket [line 1 10]))),
      shop1\<lparr>orders := (orders shop1)(''o1'' \<mapsto>
         statusUpdate 7 ''delivered'' (newOrder ''u1'' (basket [line 1 10])))\<rparr>) \<and>
   statusUpdate 7 ''delivered'' (newOrder ''u1'' (basket [line 1 10])) =
     (newOrder ''u1'' (basket [line 1 10]))
       \<lparr>o_status := ''delivered'', o_isDelivered := True, o_deliveredAt := Some 7\<rparr> \<and>
   specOrderSchema (statusUpdate 8 ''pending'' (statusUpdate 7 ''delivered'' (newOrder ''u1'' (basket [line 1 10])))) \<and>
   o_status (statusUpdate 8 ''pending'' (statusUpdate 7 ''delivered'' (newOrder ''u1'' (basket [line 1 10]))))
     = ''pending'' \<and>
   statusUpdate 8 ''pending'' (statusUpdate 7 ''delivered'' (newOrder ''u1'' (basket [line 1 10]))) =
     (statusUpdate 7 ''delivered'' (newOrder ''u1'' (basket [line 1 10])))\<lparr>o_status := ''pending''\<rparr>"
proof -
  let ?o = "newOrder ''u1'' (basket [line 1 10])"
  let ?d = "statusUpdate 7 ''delivered'' ?o"
  let ?s2 = "shop1\<lparr>orders := (orders shop1)(''o1'' \<mapsto> ?d)\<rparr>"
  have a: "orders shop ''o9'' = None" by (simp add: shop_def)
  have b: "orders shop1 ''o1'' = Some ?o" by (rule shop1_order)
  have c: "specOrderSchema ?d" by (simp add: statusUpdate_def Let_def order_defs)
  have d: "orders ?s2 ''o1'' = Some ?d" by simp
  have e: "specOrderSchema (statusUpdate 8 ''pending'' ?d)" by (simp add: statusUpdate_def Let_def order_defs)
  have ne: "''pending'' \<noteq> ''delivered''" by simp
  from updateOrderStatus_unconditional [of shop "''o9''" specOrderSchema 7 "''shipped''"] a
  have r1: "updateOrderStatus specOrderSchema 7 ''o9'' ''shipped'' shop =
     (Inl (NotFoundError ''Order not found''), shop)" by blast
  from updateOrderStatus_unconditional [of shop1 "''o1''" specOrderSchema 7 "''delivered''"] b c
  have r2: "updateOrderStatus specOrderSchema 7 ''o1'' ''delivered'' shop1 = (Inr ?d, ?s2)"
    and r3: "?d = ?o\<lparr>o_status := ''delivered'', o_isDelivered := True, o_deliveredAt := Some 7\<rparr>"
    by blast+
  from updateOrderStatus_unconditional [of ?s2 "''o1''" specOrderSchema 8 "''pending''"] d e ne
  have r4: "o_status (statusUpdate 8 ''pending'' ?d) = ''pending''"
    and r5: "statusUpdate 8 ''pending'' ?d = ?d\<lparr>o_status := ''pending''\<rparr>"
    by blast+
  from a r1 b c r2 r3 e r4 r5 show ?thesis by (intro conjI)
qed

subsection \<open>Marking an order paid\<close>

text \<open>
  Claim C7. \<open>updateOrderToPaid\<close> never looks at the requesting user: its outcome is the
  same for every user. It fails with \<open>NotFoundError\<close> when the order is absent; for an
  existing order it marks the order paid, advances the status to \<open>processing\<close> and stores
  the four keys of the body as the payment result. Its only other failure is a save the
  order schema rejects.
\<close>

theorem updateOrderToPaid_any_user:
  "updateOrderToPaid orderSchema now usr k b s = updateOrderToPaid orderSchema now usr' k b s \<and>
   (orders s k = None \<longrightarrow>
      updateOrderToPaid orderSchema now usr k b s = (Inl (NotFoundError ''Order not found''), s)) \<and>
   (\<forall>o'. orders s k = Some o' \<longrightarrow> orderSchema (paidUpdate now b o') \<longrightarrow>
      updateOrderToPaid orderSchema now usr k b s =
        (Inr (paidUpdate now b o'), s\<lparr>orders := (orders s)(k \<mapsto> paidUpdate now b o')\<rparr>) \<and>
      paymentState (paidUpdate now b o') =
        (True, Some now,
         Some \<lparr> pr_id = b_id b, pr_status = b_status b, pr_update_time = b_update_time b,
                pr_email_address = b_email_address b, pr_email = None \<rparr>,
         ''processing'')) \<and>
   (\<forall>e. fst (updateOrderToPaid orderSchema now usr k b s) = Inl e \<longrightarrow>
      (orders s k = None \<and> e = NotFoundError ''Order not found'') \<or>
      (\<exists>o'. orders s k = Some o' \<and> \<not> orderSchema (paidUpdate now b o') \<and>
            e = InternalError ''Error updating order''))"
  by (auto simp: updateOrderToPaid_def order_save_def paidUpdate_def paymentState_def
           split: option.splits)

theorem updateOrderToPaid_any_user_witness:
  "updateOrderToPaid specOrderSchema 3 bob ''o1'' receipt shop1 =
     updateOrderToPaid specOrderSchema 3 alice ''o1'' receipt shop1 \<and>
   o_user (newOrder ''u1'' (basket [line 1 10])) \<noteq> u_id bob \<and> u_role bob \<noteq> ''admin'' \<and>
   orders shop ''o9'' = None \<and>
   updateOrderToPaid specOrderSchema 3 bob ''o9'' receipt shop =
     (Inl (NotFoundError ''Order not found''), shop) \<and>
   orders shop1 ''o1'' = Some (newOrder ''u1'' (basket [line 1 10])) \<and>
   specOrderSchema (paidUpdate 3 receipt (newOrder ''u1'' (basket [line 1 10]))) \<and>
   updateOrderToPaid specOrderSchema 3 bob ''o1'' receipt shop1 =
     (Inr (paidUpdate 3 receipt (newOrder ''u1'' (basket [line 1 10]))),
      shop1\<lparr>orders := (orders shop1)(''o1'' \<mapsto>
         paidUpdate 3 receipt (newOrder ''u1'' (basket [line 1 10])))\<rparr>) \<and>
   paymentState (paidUpdate 3 receipt (newOrder ''u1'' (basket [line 1 10]))) =
     (True, Some 3,
      Some \<lparr> pr_id = b_id receipt, pr_status = b_status receipt,
             pr_update_time = b_update_time receipt,
             pr_email_address = b_email_address receipt, pr_email = None \<rparr>,
      ''processing'') \<and>
   fst (updateOrderToPaid specOrderSchema 3 bob ''o9'' receipt shop) =
     Inl (NotFoundError ''Order not found'')"
proof -
  let ?o = "newOrder ''u1'' (basket [line 1 10])"
  have a: "orders shop ''o9'' = None" by (simp add: shop_def)
  have b: "orders shop1 ''o1'' = Some ?o" by (rule shop1_order)
  have c: "specOrderSchema (paidUpdate 3 receipt ?o)" by (simp add: paidUpdate_def order_defs)
  have d: "o_user ?o \<noteq> u_id bob" by (simp add: newOrder_def bob_def)
  have e: "u_role bob \<noteq> ''admin''" by (simp add: bob_def)
  from updateOrderToPaid_any_user [of specOrderSchema 3 bob "''o1''" receipt shop1 alice]
  have r0: "updateOrderToPaid specOrderSchema 3 bob ''o1'' receipt shop1 =
     updateOrderToPaid specOrderSchema 3 alice ''o1'' receipt shop1"
    by blast
  from updateOrderToPaid_any_user [of specOrderSchema 3 bob "''o9''" receipt shop bob] a
  have r1: "updateOrderToPaid specOrderSchema 3 bob ''o9'' receipt shop =
     (Inl (NotFoundError ''Order not found''), shop)" by blast
  from updateOrderToPaid_any_user [of specOrderSchema 3 bob "''o1''" receipt shop1 bob] b c
  have r2: "updateOrderToPaid specOrderSchema 3 bob ''o1'' receipt shop1 =
     (Inr (paidUpdate 3 receipt ?o), shop1\<lparr>orders := (orders shop1)(''o1'' \<mapsto> paidUpdate 3 receipt ?o)\<rparr>)"
    and r3: "paymentState (paidUpdate 3 receipt ?o) =
     (True, Some 3,
      Some \<lparr> pr_id = b_id receipt, pr_status = b_status receipt,
             pr_update_time = b_update_time receipt,
             pr_email_address = b_email_address receipt, pr_email = None \<rparr>,
      ''processing'')"
    by blast+
  from r1 have r4: "fst (updateOrderToPaid specOrderSchema 3 bob ''o9'' receipt shop) =
     Inl (NotFoundError ''Order not found'')" by simp
  from r0 d e a r1 b c r2 r3 r4 show ?thesis by (intro conjI)
qed

text \<open>
  Claim C1, as the code has it. Two invocations of \<open>updateOrderToPaid\<close> with the same
  payment result, at times \<open>t1\<close> and \<open>t2\<close>, leave the order with the same \<open>isPaid\<close>,
  \<open>paymentResult\<close> and \<open>status\<close> as the first invocation alone; \<open>paidAt\<close> is written
  by each invocation, so it ends as \<open>t2\<close>: the order is as one invocation at the later
  time leaves it.
\<close>

theorem updateOrderToPaid_twice:
  assumes "orders s k = Some o'"
    and "orderSchema (paidUpdate t1 b o')" and "orderSchema (paidUpdate t2 b o')"
  shows "\<exists>o1 o2.
    orders (snd (updateOrderToPaid orderSchema t1 usr k b s)) k = Some o1 \<and>
    orders (snd (updateOrderToPaid orderSchema t2 usr' k b
                  (snd (updateOrderToPaid orderSchema t1 usr k b s)))) k = Some o2 \<and>
    o_isPaid o2 = o_isPaid o1 \<and> o_paymentResult o2 = o_paymentResult o1 \<and>
    o_status o2 = o_status o1 \<and> o_paidAt o1 = Some t1 \<and> o_paidAt o2 = Some t2 \<and>
    o2 = paidUpdate t2 b o' \<and>
    snd (updateOrderToPaid orderSchema t2 usr' k b
          (snd (updateOrderToPaid orderSchema t1 usr k b s))) =
      snd (updateOrderToPaid orderSchema t2 usr' k b s)"
proof -
  have again: "paidUpdate t2 b (paidUpdate t1 b o') = paidUpdate t2 b o'"
    by (simp add: paidUpdate_def)
  from assms(1,2) have s1: "snd (updateOrderToPaid orderSchema t1 usr k b s) =
      s\<lparr>orders := (orders s)(k \<mapsto> paidUpdate t1 b o')\<rparr>"
    by (simp add: updateOrderToPaid_def order_save_def)
  from assms(3) again have s2: "snd (updateOrderToPaid orderSchema t2 usr' k b
      (s\<lparr>orders := (orders s)(k \<mapsto> paidUpdate t1 b o')\<rparr>)) =
      s\<lparr>orders := (orders s)(k \<mapsto> paidUpdate t2 b o')\<rparr>"
    by (simp add: updateOrderToPaid_def order_save_def)
  from assms(1,3) have s3: "snd (updateOrderToPaid orderSchema t2 usr' k b s) =
      s\<lparr>orders := (orders s)(k \<mapsto> paidUpdate t2 b o')\<rparr>"
    by (simp add: updateOrderToPaid_def order_save_def)
  show ?thesis
    unfolding s1 s2 s3
    by (intro exI [of _ "paidUpdate t1 b o'"] exI [of _ "paidUpdate t2 b o'"])
       (simp add: paidUpdate_def)
qed

theorem updateOrderToPaid_twice_witness:
  "orders shop1 ''o1'' = Some (newOrder ''u1'' (basket [line 1 10])) \<and>
   specOrderSchema (paidUpdate 1 receipt (newOrder ''u1'' (basket [line 1 10]))) \<and>
   specOrderSchema (paidUpdate 2 receipt (newOrder ''u1'' (basket [line 1 10]))) \<and>
   (\<exists>o1 o2.
      orders (snd (updateOrderToPaid specOrderSchema 1 alice ''o1'' receipt shop1)) ''o1'' = Some o1 \<and>
      orders (snd (updateOrderToPaid specOrderSchema 2 alice ''o1'' receipt
                    (snd (updateOrderToPaid specOrderSchema 1 alice ''o1'' receipt shop1)))) ''o1'' = Some o2 \<and>
      o_isPaid o2 = o_isPaid o1 \<and> o_paymentResult o2 = o_paymentResult o1 \<and>
      o_status o2 = o_status o1 \<and> o_paidAt o1 = Some 1 \<and> o_paidAt o2 = Some 2 \<and>
      o2 = paidUpdate 2 receipt (newOrder ''u1'' (basket [line 1 10])) \<and>
      snd (updateOrderToPaid specOrderSchema 2 alice ''o1'' receipt
            (snd (updateOrderToPaid specOrderSchema 1 alice ''o1'' receipt shop1))) =
        snd (updateOrderToPaid specOrderSchema 2 alice ''o1'' receipt shop1))"
proof -
  let ?o = "newOrder ''u1'' (basket [line 1 10])"
  have a: "orders shop1 ''o1'' = Some ?o" by (rule shop1_order)
  have b: "specOrderSchema (paidUpdate 1 receipt ?o)" by (simp add: paidUpdate_def order_defs)
  have c: "specOrderSchema (paidUpdate 2 receipt ?o)" by (simp add: paidUpdate_def order_defs)
  from updateOrderToPaid_twice [OF a b c, of alice alice] a b c show ?thesis by (intro conjI)
qed

text \<open>
  Claim C1 as stated fails on \<open>paidAt\<close>: order \<open>o1\<close> marked paid at time 1 and again, with
  the same payment result, at time 2 ends with \<open>paidAt = 2\<close>, where one invocation left
  \<open>paidAt = 1\<close>.
\<close>

theorem updateOrderToPaid_twice_counterexample:
  "map_option paymentState
     (orders (snd (updateOrderToPaid specOrderSchema 2 alice ''o1'' receipt
                    (snd (updateOrderToPaid specOrderSchema 1 alice ''o1'' receipt shop1)))) ''o1'') \<noteq>
   map_option paymentState
     (orders (snd (updateOrderToPaid specOrderSchema 1 alice ''o1'' receipt shop1)) ''o1'') \<and>
   map_option o_paidAt
     (orders (snd (updateOrderToPaid specOrderSchema 1 alice ''o1'' receipt shop1)) ''o1'') =
     Some (Some 1) \<and>
   map_option o_paidAt
     (orders (snd (updateOrderToPaid specOrderSchema 2 alice ''o1'' receipt
                    (snd (updateOrderToPaid specOrderSchema 1 alice ''o1'' receipt shop1)))) ''o1'') =
     Some (Some 2)"
  by (simp add: updateOrderToPaid_def order_save_def paidUpdate_def paymentState_def
        shop1_eq order_defs)

subsection \<open>Payment confirmation by webhook\<close>

lemma trySend_orders: "orders (trySend mailUp u k s) = orders s"
  by (simp add: trySend_def sendOrderConfirmationEmail_def)

lemma webhook_v2_completed:
  assumes "ev_type ev = ''checkout.session.completed''"
    and "ss_orderId (ev_object ev) = Some k" and "k \<noteq> []" and "orders s k = Some o'"
  shows "fst (webhook_v2 mailKey mailUp now (Inr ev) s) = Received"
    and "orders (snd (webhook_v2 mailKey mailUp now (Inr ev) s)) =
           (orders s)(k \<mapsto> webhookUpdate_v2 now (ev_object ev) o')"
  using assms
  by (simp_all add: webhook_v2_def truthy_def findByIdAndUpdate_def trySend_orders
        split: option.splits)

lemma webhook_v1_completed:
  assumes "ev_type ev = ''checkout.session.completed''"
    and "ss_orderId (ev_object ev) = Some k" and "k \<noteq> []" and "orders s k = Some o'"
  shows "fst (webhook_v1 now (Inr ev) s) = Received"
    and "orders (snd (webhook_v1 now (Inr ev) s)) =
           (orders s)(k \<mapsto> webhookUpdate_v1 now (ev_object ev) o')"
  using assms
  by (simp_all add: webhook_v1_def truthy_def findByIdAndUpdate_def)

text \<open>
  Claim C5, as the code has it. A \<open>checkout.session.completed\<close> event for an order that
  is already paid is answered with \<open>received: true\<close> and the order stays paid, but the
  handler writes it again as on a first confirmation: \<open>paidAt\<close> becomes the time of the
  webhook and \<open>paymentResult\<close> the event's payment intent, the status \<open>completed\<close> and
  the customer's email. Both versions of the handler do so; the second also sets the
  order status to \<open>processing\<close>.
\<close>

theorem webhook_completed_overwrites:
  assumes "ev_type ev = ''checkout.session.completed''"
    and "ss_orderId (ev_object ev) = Some k" and "k \<noteq> []"
    and "orders s k = Some o'" and "o_isPaid o'"
  shows "\<exists>o2 o1.
    fst (webhook_v2 mailKey mailUp now (Inr ev) s) = Received \<and>
    orders (snd (webhook_v2 mailKey mailUp now (Inr ev) s)) k = Some o2 \<and>
    paymentState o2 =
      (True, Some now,
       Some \<lparr> pr_id = ss_payment_intent (ev_object ev), pr_status = Some ''completed'',
              pr_update_time = None, pr_email_address = ss_email (ev_object ev),
              pr_email = None \<rparr>,
       ''processing'') \<and>
    fst (webhook_v1 now (Inr ev) s) = Received \<and>
    orders (snd (webhook_v1 now (Inr ev) s)) k = Some o1 \<and>
    paymentState o1 =
      (True, Some now,
       Some \<lparr> pr_id = ss_payment_intent (ev_object ev), pr_status = Some ''completed'',
              pr_update_time = None, pr_email_address = None,
              pr_email = ss_email (ev_object ev) \<rparr>,
       o_status o')"
proof -
  note v2 = webhook_v2_completed [OF assms(1-4), of mailKey mailUp now]
  note v1 = webhook_v1_completed [OF assms(1-4), of now]
  show ?thesis
    by (intro exI [of _ "webhookUpdate_v2 now (ev_object ev) o'"]
              exI [of _ "webhookUpdate_v1 now (ev_object ev) o'"])
       (simp add: v1 v2 paymentState_def webhookUpdate_v1_def webhookUpdate_v2_def)
qed

lemma verified1_order:
  "orders verified1 ''o1'' = Some (verifyUpdate_v2 1 checkout1 (newOrder ''u1'' (basket [line 1 10])))"
  by (simp add: verified1_def verifySession_v2_def truthy_def findByIdAndUpdate_def
        checkout1_def shop1_order findById_def trySend_orders split: option.splits prod.splits)

theorem webhook_completed_overwrites_witness:
  "ev_type completed1 = ''checkout.session.completed'' \<and>
   ss_orderId (ev_object completed1) = Some ''o1'' \<and> ''o1'' \<noteq> [] \<and>
   orders verified1 ''o1'' = Some (verifyUpdate_v2 1 checkout1 (newOrder ''u1'' (basket [line 1 10]))) \<and>
   o_isPaid (verifyUpdate_v2 1 checkout1 (newOrder ''u1'' (basket [line 1 10]))) \<and>
   (\<exists>o2 o1.
      fst (webhook_v2 None True 2 (Inr completed1) verified1) = Received \<and>
      orders (snd (webhook_v2 None True 2 (Inr completed1) verified1)) ''o1'' = Some o2 \<and>
      paymentState o2 =
        (True, Some 2,
         Some \<lparr> pr_id = ss_payment_intent (ev_object completed1), pr_status = Some ''completed'',
                pr_update_time = None, pr_email_address = ss_email (ev_object completed1),
                pr_email = None \<rparr>,
         ''processing'') \<and>
      fst (webhook_v1 2 (Inr completed1) verified1) = Received \<and>
      orders (snd (webhook_v1 2 (Inr completed1) verified1)) ''o1'' = Some o1 \<and>
      paymentState o1 =
        (True, Some 2,
         Some \<lparr> pr_id = ss_payment_intent (ev_object completed1), pr_status = Some ''completed'',
                pr_update_time = None, pr_email_address = None,
                pr_email = ss_email (ev_object completed1) \<rparr>,
         o_status (verifyUpdate_v2 1 checkout1 (newOrder ''u1'' (basket [line 1 10])))))"
proof -
  have a: "ev_type completed1 = ''checkout.session.completed''" by (simp add: completed1_def)
  have b: "ss_orderId (ev_object completed1) = Some ''o1''"
    by (simp add: completed1_def checkout1_def)
  have c: "''o1'' \<noteq> []" by simp
  note d = verified1_order
  have e: "o_isPaid (verifyUpdate_v2 1 checkout1 (newOrder ''u1'' (basket [line 1 10])))"
    by (simp add: verifyUpdate_v2_def)
  from webhook_completed_overwrites [OF a b c d e, of None True 2] a b c d e
  show ?thesis by (intro conjI)
qed

text \<open>
  Claim C5 as stated fails: order \<open>o1\<close>, marked paid by the verify route at time 1 with
  the session's payment status \<open>paid\<close>, receives the webhook for the same session at
  time 2. The handler answers \<open>received: true\<close>, and the order's \<open>paidAt\<close> is now 2 and
  its payment result carries the status \<open>completed\<close>.
\<close>

theorem webhook_after_verify_counterexample:
  "map_option o_isPaid (orders verified1 ''o1'') = Some True \<and>
   fst notified1 = Received \<and>
   map_option o_paidAt (orders verified1 ''o1'') = Some (Some 1) \<and>
   map_option o_paidAt (orders (snd notified1) ''o1'') = Some (Some 2) \<and>
   map_option o_paymentResult (orders verified1 ''o1'') =
     Some (Some \<lparr> pr_id = Some ''pi_1'', pr_status = Some ''paid'', pr_update_time = None,
                  pr_email_address = Some ''alice@example.com'', pr_email = None \<rparr>) \<and>
   map_option o_paymentResult (orders (snd notified1) ''o1'') =
     Some (Some \<lparr> pr_id = Some ''pi_1'', pr_status = Some ''completed'', pr_update_time = None,
                  pr_email_address = Some ''alice@example.com'', pr_email = None \<rparr>) \<and>
   map_option o_paymentResult (orders (snd notified1) ''o1'') \<noteq>
     map_option o_paymentResult (orders verified1 ''o1'')"
  by (simp add: notified1_def completed1_def webhook_v2_def truthy_def findByIdAndUpdate_def
        verified1_order verifyUpdate_v2_def webhookUpdate_v2_def checkout1_def
        split: option.splits)

text \<open>
  Claim C10. A \<open>payment_intent.payment_failed\<close> event whose signature verified is
  answered with \<open>received: true\<close> and leaves the whole store as it was, in both versions
  of the handler.
\<close>

theorem webhook_payment_failed:
  assumes "ev_type ev = ''payment_intent.payment_failed''"
  shows "webhook_v2 mailKey mailUp now (Inr ev) s = (Received, s) \<and>
         webhook_v1 now (Inr ev) s = (Received, s)"
  using assms by (simp add: webhook_v2_def webhook_v1_def)

theorem webhook_payment_failed_witness:
  "ev_type failed1 = ''payment_intent.payment_failed'' \<and>
   webhook_v2 (Some ''re_key'') True 5 (Inr failed1) shop1 = (Received, shop1) \<and>
   webhook_v1 5 (Inr failed1) shop1 = (Received, shop1)"
proof -
  have a: "ev_type failed1 = ''payment_intent.payment_failed''" by (simp add: failed1_def)
  from webhook_payment_failed [OF a, of "Some ''re_key''" True 5 shop1] a
  show ?thesis by (intro conjI) simp_all
qed

subsection \<open>Prices of a persisted order\<close>

















end
